theory Spec2Isabelle
  imports Complex_Main
begin

section \<open>The notification manager (foreground session)\<close>

text \<open>
  The class \<open>NotificationManager\<close> is embedded as a record of its fields and one function
  per method or socket handler.  Every function takes the manager and returns the updated
  manager together with the list of effects it issued, in program order.  What the
  environment answers (a fetch that rejects, a permission prompt, a server payload) is an
  argument of the function.

  \<open>initializationAttempts\<close> starts at zero and is only ever incremented, so it is a
  \<open>nat\<close>.  The listener map is not part of the record: a call of \<open>emit\<close> is an effect.
\<close>

subsection \<open>Counts\<close>

text \<open>
  \<open>unreadCount\<close> is declared a number, and three handlers assign to it what a server
  payload holds, unchecked.  So a count is any number, fractions and negative numbers
  included, or \<open>undefined\<close> when the payload lacks the field, or \<open>NaN\<close>, which is
  what arithmetic on \<open>undefined\<close> gives.  Numbers are real numbers: the rounding of
  doubles is left out.  The operations are those the class applies to the count:
  \<open>c++\<close>, \<open>c--\<close>, \<open>c > 0\<close> and \<open>c || 0\<close>.
\<close>

datatype jsnum = Undefined | NaN | Num real

fun increment :: "jsnum \<Rightarrow> jsnum" where
  "increment (Num r) = Num (r + 1)"
| "increment _ = NaN"

fun decrement :: "jsnum \<Rightarrow> jsnum" where
  "decrement (Num r) = Num (r - 1)"
| "decrement _ = NaN"

fun gt_zero :: "jsnum \<Rightarrow> bool" where
  "gt_zero (Num r) = (0 < r)"
| "gt_zero _ = False"

fun or_zero :: "jsnum \<Rightarrow> jsnum" where
  "or_zero (Num r) = (if r = 0 then Num 0 else Num r)"
| "or_zero _ = Num 0"

text \<open>The counts that are non-negative integers.\<close>

fun nonneg_integer :: "jsnum \<Rightarrow> bool" where
  "nonneg_integer (Num r) = (0 \<le> r \<and> of_int \<lfloor>r\<rfloor> = r)"
| "nonneg_integer _ = False"

subsection \<open>State and effects\<close>

datatype effect =
    RegisterServiceWorker
  | FetchVapidPublicKey
  | RequestPermission
  | SubscribeToPushNotifications
  | SendSubscriptionToBackend
  | ConnectWebSocket
  | IoConnect
  | SetupServiceWorkerListener
  | SetupVisibilityChangeListener
  | SocketEmit string "string option"
  | HttpPost string
  | HttpGet string
  | Emit string
  | EmitUnreadCountUpdated jsnum
  | UpdateBadge jsnum
  | ShowInAppNotification string
  | PlayNotificationSound
  | LocalStorageSetDeviceId string
  | SocketDisconnect

record manager =
  socket :: "bool option"
  deviceId :: "string option"
  userId :: "string option"
  registration :: bool
  vapidPublicKey :: "string option"
  unreadCount :: jsnum
  initializationAttempts :: nat
  isInitializing :: bool

text \<open>
  \<open>socket\<close> is \<open>None\<close> for \<open>null\<close> and \<open>Some c\<close> for a socket object whose
  \<open>connected\<close> flag is \<open>c\<close>; \<open>registration\<close> says whether the field holds a
  registration.  A fresh object has the field initialisers of the class.
\<close>

definition new_manager :: manager where
  "new_manager = \<lparr> socket = None, deviceId = None, userId = None, registration = False,
     vapidPublicKey = None, unreadCount = Num 0, initializationAttempts = 0,
     isInitializing = False \<rparr>"

definition maxInitializationAttempts :: nat where
  "maxInitializationAttempts = 3"

subsection \<open>Socket handlers\<close>

text \<open>
  \<open>connection:verified\<close>: \<open>this.unreadCount = data.unreadCount || 0\<close>, where \<open>||\<close>
  replaces an absent count, \<open>NaN\<close> and zero by zero.
\<close>

definition on_connection_verified :: "jsnum \<Rightarrow> manager \<Rightarrow> manager \<times> effect list" where
  "on_connection_verified c m =
     (let m' = m\<lparr>unreadCount := or_zero c\<rparr>
      in (m', [EmitUnreadCountUpdated (unreadCount m'), UpdateBadge (unreadCount m')]))"

text \<open>
  \<open>notification:new\<close>: the count is incremented; the in-app notification is shown only
  when the document is visible.  The notification is represented by its id.
\<close>

definition on_notification_new :: "string \<Rightarrow> bool \<Rightarrow> manager \<Rightarrow> manager \<times> effect list" where
  "on_notification_new nid visible m =
     (let m' = m\<lparr>unreadCount := increment (unreadCount m)\<rparr>
      in (m', [EmitUnreadCountUpdated (unreadCount m'), UpdateBadge (unreadCount m')]
              @ (if visible then [ShowInAppNotification nid] else [])
              @ [PlayNotificationSound, Emit ''notification'']))"

definition on_read_sync :: "string \<Rightarrow> manager \<Rightarrow> manager \<times> effect list" where
  "on_read_sync nid m = (m, [Emit ''notification-read''])"

definition on_all_read :: "manager \<Rightarrow> manager \<times> effect list" where
  "on_all_read m =
     (m\<lparr>unreadCount := Num 0\<rparr>,
      [EmitUnreadCountUpdated (Num 0), UpdateBadge (Num 0), Emit ''all-read''])"

text \<open>\<open>notification:badge-update\<close>: \<open>this.unreadCount = data.count\<close>, as it arrives.\<close>

definition on_badge_update :: "jsnum \<Rightarrow> manager \<Rightarrow> manager \<times> effect list" where
  "on_badge_update c m =
     (m\<lparr>unreadCount := c\<rparr>, [EmitUnreadCountUpdated c, UpdateBadge c])"

text \<open>The transport's own \<open>connect\<close> and \<open>disconnect\<close> events.\<close>

definition on_connect :: "manager \<Rightarrow> manager \<times> effect list" where
  "on_connect m =
     (m\<lparr>socket := map_option (\<lambda>_. True) (socket m)\<rparr>,
      [SocketEmit ''authenticate'' (userId m)])"

definition on_disconnect :: "manager \<Rightarrow> manager \<times> effect list" where
  "on_disconnect m =
     (m\<lparr>socket := map_option (\<lambda>_. False) (socket m)\<rparr>, [Emit ''disconnected''])"

subsection \<open>Mark-read operations\<close>

text \<open>
  \<open>this.socket?.emit(...)\<close> emits only when there is a socket object.  The argument
  \<open>fetch_resolves\<close> says whether the promise of the HTTP \<open>fetch\<close> resolves (with any
  status) or rejects; a rejection leaves the \<open>try\<close> block before the count is touched.
\<close>

definition socket_emit :: "manager \<Rightarrow> string \<Rightarrow> string option \<Rightarrow> effect list" where
  "socket_emit m ev arg = (case socket m of None \<Rightarrow> [] | Some _ \<Rightarrow> [SocketEmit ev arg])"

definition markAsRead :: "string \<Rightarrow> bool \<Rightarrow> manager \<Rightarrow> manager \<times> effect list" where
  "markAsRead notificationId fetch_resolves m =
     (let es = socket_emit m ''notification:mark-read'' (Some notificationId)
                 @ [HttpPost ''/notifications/mark-read'']
      in if fetch_resolves then
           (if gt_zero (unreadCount m) then
              (let m' = m\<lparr>unreadCount := decrement (unreadCount m)\<rparr>
               in (m', es @ [EmitUnreadCountUpdated (unreadCount m'),
                             UpdateBadge (unreadCount m')]))
            else (m, es))
         else (m, es))"

definition markAsClicked :: "string \<Rightarrow> bool \<Rightarrow> manager \<Rightarrow> manager \<times> effect list" where
  "markAsClicked notificationId fetch_resolves m =
     (let (m', es) = markAsRead notificationId fetch_resolves m
      in (m', socket_emit m ''notification:clicked'' (Some notificationId) @ es))"

definition markAllAsRead :: "bool \<Rightarrow> manager \<Rightarrow> manager \<times> effect list" where
  "markAllAsRead fetch_resolves m =
     (let es = socket_emit m ''notification:mark-all-read'' None
                 @ [HttpPost ''/notifications/mark-all-read'']
      in if fetch_resolves then
           (m\<lparr>unreadCount := Num 0\<rparr>,
            es @ [EmitUnreadCountUpdated (Num 0), UpdateBadge (Num 0)])
         else (m, es))"

text \<open>
  \<open>fetchMissedNotifications\<close>, run when the document becomes visible.  The answer of the
  pending endpoint is a rejection (of the fetch or of the JSON parse) or a body with its
  \<open>success\<close> flag, its list of notifications (by id) and its \<open>count\<close>.
\<close>

datatype pending_fetch = PendingRejected | PendingBody bool "string list" jsnum

fun fetchMissedNotifications :: "pending_fetch \<Rightarrow> manager \<Rightarrow> manager \<times> effect list" where
  "fetchMissedNotifications PendingRejected m = (m, [HttpGet ''/notifications/pending''])"
| "fetchMissedNotifications (PendingBody success dat cnt) m =
     (if success \<and> length dat > 0 then
        (m\<lparr>unreadCount := cnt\<rparr>,
         [HttpGet ''/notifications/pending''] @ map ShowInAppNotification (take 3 dat)
           @ [EmitUnreadCountUpdated cnt, UpdateBadge cnt])
      else (m, [HttpGet ''/notifications/pending'']))"

definition disconnect :: "manager \<Rightarrow> manager \<times> effect list" where
  "disconnect m =
     (m\<lparr>socket := None\<rparr>, (case socket m of None \<Rightarrow> [] | Some _ \<Rightarrow> [SocketDisconnect]))"

subsection \<open>Initialization\<close>

text \<open>
  What the platform and the backend answer during one \<open>initialize\<close> call:
  whether \<open>serviceWorker\<close> is in \<open>navigator\<close> and whether \<open>register\<close> resolves;
  the answer to the push-key request; whether \<open>Notification\<close> is in \<open>window\<close>, the
  cached permission and what a prompt would return; whether a push subscription exists,
  whether creating one resolves, and the backend's answer to the subscribe request.
\<close>

datatype vapid_fetch =
    VapidRejected | VapidTimedOut | VapidHttpError | VapidJsonError
  | VapidBody bool "string option"

datatype permission = Granted | Denied | Default

datatype subscribe_fetch = SubscribeRejected | SubscribeBody bool string

record init_env =
  sw_supported :: bool
  register_resolves :: bool
  vapid :: vapid_fetch
  notification_supported :: bool
  notification_permission :: permission
  prompt_result :: permission
  existing_subscription :: bool
  subscribe_resolves :: bool
  subscribe_backend :: subscribe_fetch

datatype error = ServiceWorkerNotSupported | RegistrationFailed | VapidFetchFailed

definition registerServiceWorker :: "init_env \<Rightarrow> manager \<Rightarrow> error + manager" where
  "registerServiceWorker e m =
     (if \<not> sw_supported e then Inl ServiceWorkerNotSupported
      else if register_resolves e then Inr (m\<lparr>registration := True\<rparr>)
      else Inl RegistrationFailed)"

text \<open>
  \<open>fetchVapidPublicKey\<close> rethrows whatever goes wrong: a rejected or timed-out fetch
  (the abort signal fires after five seconds), a response that is not \<open>ok\<close>, a body that
  is not JSON, a body whose \<open>success\<close> is false.  Only a successful body stores the key.
\<close>

fun fetchVapidPublicKey :: "vapid_fetch \<Rightarrow> manager \<Rightarrow> error + manager" where
  "fetchVapidPublicKey (VapidBody True k) m = Inr (m\<lparr>vapidPublicKey := k\<rparr>)"
| "fetchVapidPublicKey _ m = Inl VapidFetchFailed"

definition requestPermission :: "init_env \<Rightarrow> permission" where
  "requestPermission e =
     (if \<not> notification_supported e then Denied
      else if notification_permission e = Granted then Granted
      else if notification_permission e = Denied then Denied
      else prompt_result e)"

text \<open>A string field is truthy when it is neither \<open>null\<close> nor the empty string.\<close>

definition truthy_str :: "string option \<Rightarrow> bool" where
  "truthy_str k = (case k of None \<Rightarrow> False | Some s \<Rightarrow> s \<noteq> [])"

fun sendSubscriptionToBackend :: "subscribe_fetch \<Rightarrow> manager \<Rightarrow> manager \<times> effect list" where
  "sendSubscriptionToBackend (SubscribeBody True d) m =
     (m\<lparr>deviceId := Some d\<rparr>, [SendSubscriptionToBackend, LocalStorageSetDeviceId d])"
| "sendSubscriptionToBackend _ m = (m, [SendSubscriptionToBackend])"

text \<open>
  \<open>subscribeToPushNotifications\<close> catches every failure itself, so it never throws:
  the \<open>catch\<close> that \<open>initialize\<close> wraps around it has no branch of its own.
\<close>

definition subscribeToPushNotifications :: "init_env \<Rightarrow> manager \<Rightarrow> manager \<times> effect list" where
  "subscribeToPushNotifications e m =
     (if \<not> registration m \<or> \<not> truthy_str (vapidPublicKey m) then (m, [])
      else if \<not> existing_subscription e \<and> \<not> subscribe_resolves e then (m, [])
      else sendSubscriptionToBackend (subscribe_backend e) m)"

definition connectWebSocket :: "manager \<Rightarrow> manager \<times> effect list" where
  "connectWebSocket m =
     (if socket m = Some True then (m, [ConnectWebSocket])
      else (m\<lparr>socket := Some False\<rparr>, [ConnectWebSocket, IoConnect]))"

datatype init_outcome = InProgress | MaxAttemptsReached | Completed | Failed

definition outcome_of :: "init_outcome \<times> manager \<times> effect list \<Rightarrow> init_outcome" where
  "outcome_of r = fst r"

definition manager_of :: "init_outcome \<times> manager \<times> effect list \<Rightarrow> manager" where
  "manager_of r = fst (snd r)"

definition effects_of :: "init_outcome \<times> manager \<times> effect list \<Rightarrow> effect list" where
  "effects_of r = snd (snd r)"

text \<open>
  \<open>initialize\<close>.  The two guards return at once.  Otherwise the flag is set, the counter
  is incremented and the user id stored before the \<open>try\<close> block; a throw of
  \<open>registerServiceWorker\<close> goes to the outer \<open>catch\<close>, a throw of
  \<open>fetchVapidPublicKey\<close> to the inner one.  Both ways out clear the flag.

  A call is one step of the model.  The flag is set before the first \<open>await\<close> and a
  call made while it is set returns at the first guard, so the calls that get past the
  guards never overlap; a manager with the flag set stands for one with a call in flight.
\<close>

definition initialize :: "string \<Rightarrow> init_env \<Rightarrow> manager \<Rightarrow> init_outcome \<times> manager \<times> effect list" where
  "initialize uid e m =
     (if isInitializing m then (InProgress, m, [])
      else if initializationAttempts m \<ge> maxInitializationAttempts
        then (MaxAttemptsReached, m, [])
      else
        (let m1 = m\<lparr>isInitializing := True,
                     initializationAttempts := initializationAttempts m + 1,
                     userId := Some uid\<rparr>
         in case registerServiceWorker e m1 of
              Inl _ \<Rightarrow> (Failed, m1\<lparr>isInitializing := False\<rparr>, [RegisterServiceWorker])
            | Inr m2 \<Rightarrow>
               (let m3 = (case fetchVapidPublicKey (vapid e) m2 of
                            Inl _ \<Rightarrow> m2 | Inr m' \<Rightarrow> m');
                    perm = requestPermission e;
                    (m4, es4) = (if perm = Granted \<and> truthy_str (vapidPublicKey m3)
                                 then (let (m', es) = subscribeToPushNotifications e m3
                                       in (m', SubscribeToPushNotifications # es))
                                 else (m3, []));
                    (m5, es5) = connectWebSocket m4
                in (Completed, m5\<lparr>isInitializing := False\<rparr>,
                    [RegisterServiceWorker, FetchVapidPublicKey, RequestPermission]
                      @ es4 @ es5
                      @ [SetupServiceWorkerListener, SetupVisibilityChangeListener]))))"

subsection \<open>Sequences of operations\<close>

text \<open>
  The operations that reach a manager: calls of its methods and events of its socket and
  of the document, each with what the environment answers.  The assignments to
  \<open>unreadCount\<close> of one operation all happen in one handler or in one continuation
  after an \<open>await\<close>, which runs without interruption, so an operation is one step.
\<close>

datatype op =
    Initialize string init_env
  | SocketConnected
  | SocketDisconnected
  | ConnectionVerified jsnum
  | NotificationNew string bool
  | ReadSync string
  | AllRead
  | BadgeUpdate jsnum
  | BecameVisible pending_fetch
  | MarkAsRead string bool
  | MarkAsClicked string bool
  | MarkAllAsRead bool
  | Disconnect

fun step :: "op \<Rightarrow> manager \<Rightarrow> manager" where
  "step (Initialize uid e) m = manager_of (initialize uid e m)"
| "step SocketConnected m = fst (on_connect m)"
| "step SocketDisconnected m = fst (on_disconnect m)"
| "step (ConnectionVerified c) m = fst (on_connection_verified c m)"
| "step (NotificationNew nid visible) m = fst (on_notification_new nid visible m)"
| "step (ReadSync nid) m = fst (on_read_sync nid m)"
| "step AllRead m = fst (on_all_read m)"
| "step (BadgeUpdate c) m = fst (on_badge_update c m)"
| "step (BecameVisible p) m = fst (fetchMissedNotifications p m)"
| "step (MarkAsRead nid ok) m = fst (markAsRead nid ok m)"
| "step (MarkAsClicked nid ok) m = fst (markAsClicked nid ok m)"
| "step (MarkAllAsRead ok) m = fst (markAllAsRead ok m)"
| "step Disconnect m = fst (disconnect m)"

text \<open>\<open>trace m ops\<close> lists the manager after each operation; \<open>run\<close> gives the last one.\<close>

fun trace :: "manager \<Rightarrow> op list \<Rightarrow> manager list" where
  "trace m [] = []"
| "trace m (x # xs) = step x m # trace (step x m) xs"

fun run :: "manager \<Rightarrow> op list \<Rightarrow> manager" where
  "run m [] = m"
| "run m (x # xs) = run (step x m) xs"

text \<open>
  The counts an operation takes from the server: the absolute value of a badge update, of
  the verification event (after \<open>|| 0\<close>) and of a visibility poll.  The predicate says
  that the count an operation carries is a non-negative integer.
\<close>

fun server_count_ok :: "op \<Rightarrow> bool" where
  "server_count_ok (BadgeUpdate c) = nonneg_integer c"
| "server_count_ok (ConnectionVerified c) = nonneg_integer (or_zero c)"
| "server_count_ok (BecameVisible (PendingBody success dat c)) = nonneg_integer c"
| "server_count_ok _ = True"

subsection \<open>Example environments\<close>

text \<open>
  Two concrete environments used to exercise the theorems below.  In the first the
  platform has no service worker, so \<open>registerServiceWorker\<close> throws and the call fails.
  In the second everything works except the push-key request, which times out.  The three
  managers are what a fresh manager becomes after one, two and three failing calls.
\<close>

definition failing_env :: init_env where
  "failing_env = \<lparr> sw_supported = False, register_resolves = False, vapid = VapidRejected,
     notification_supported = True, notification_permission = Default,
     prompt_result = Denied, existing_subscription = False, subscribe_resolves = False,
     subscribe_backend = SubscribeRejected \<rparr>"

definition vapid_failing_env :: init_env where
  "vapid_failing_env = \<lparr> sw_supported = True, register_resolves = True, vapid = VapidTimedOut,
     notification_supported = True, notification_permission = Granted,
     prompt_result = Granted, existing_subscription = False, subscribe_resolves = True,
     subscribe_backend = SubscribeBody True ''device-1'' \<rparr>"

definition failed_once :: manager where
  "failed_once = manager_of (initialize ''rider-1'' failing_env new_manager)"

definition failed_twice :: manager where
  "failed_twice = manager_of (initialize ''rider-1'' failing_env failed_once)"

definition failed_thrice :: manager where
  "failed_thrice = manager_of (initialize ''rider-1'' failing_env failed_twice)"

section \<open>The background worker\<close>

subsection \<open>JavaScript values\<close>

text \<open>
  The worker handles values whose shape it does not control: a push payload, the data
  attached to a notification.  They are JSON values; a JavaScript value that may be
  \<open>undefined\<close> is a \<open>json option\<close>.  Numbers are integers.  An object is the list of its
  properties; a key occurs once.
\<close>

datatype json =
    JNull
  | JBool bool
  | JNum int
  | JStr string
  | JArr "json list"
  | JObj "(string \<times> json) list"

datatype js_error = TypeError

fun truthy :: "json \<Rightarrow> bool" where
  "truthy JNull = False"
| "truthy (JBool b) = b"
| "truthy (JNum n) = (n \<noteq> 0)"
| "truthy (JStr s) = (s \<noteq> [])"
| "truthy (JArr xs) = True"
| "truthy (JObj kvs) = True"

text \<open>\<open>a || b\<close>: the left value when it is truthy, the right one otherwise.\<close>

definition or_else :: "json option \<Rightarrow> json \<Rightarrow> json" where
  "or_else a b = (case a of None \<Rightarrow> b | Some v \<Rightarrow> (if truthy v then v else b))"

text \<open>
  \<open>v.k\<close> for a value \<open>v\<close> that is not \<open>null\<close>: a property of an object, and
  \<open>undefined\<close> on a boolean, a number, a string or an array, which have none of the
  properties read here.  Reading a property of \<open>null\<close> throws, which each handler below
  checks before it reads.
\<close>

fun js_get :: "json \<Rightarrow> string \<Rightarrow> json option" where
  "js_get (JObj kvs) k = map_of kvs k"
| "js_get _ k = None"

text \<open>\<open>o.k = v\<close> for a property the object already has.\<close>

fun assign :: "json \<Rightarrow> string \<Rightarrow> json \<Rightarrow> json" where
  "assign (JObj kvs) k v = JObj (map (\<lambda>(k', v'). if k' = k then (k', v) else (k', v')) kvs)"
| "assign j k v = j"

text \<open>\<open>s.startsWith(p)\<close> and \<open>s.includes(p)\<close>.\<close>

definition startsWith :: "string \<Rightarrow> string \<Rightarrow> bool" where
  "startsWith s p = (take (length p) s = p)"

fun includesStr :: "string \<Rightarrow> string \<Rightarrow> bool" where
  "includesStr [] p = (p = [])"
| "includesStr (c # cs) p = (startsWith (c # cs) p \<or> includesStr cs p)"

subsection \<open>Push receipt\<close>

text \<open>
  \<open>event.data\<close> is absent, or it is a payload that \<open>json()\<close> parses to a value, or
  one on which \<open>json()\<close> throws and whose \<open>text()\<close> is then read.
\<close>

datatype push_data = JsonPayload json | TextPayload string

record notification_options =
  body :: "json option"
  icon :: json
  badge :: json
  tag :: json
  requireInteraction :: json
  vibrate :: json
  data :: json
  actions :: json
  silent :: bool

definition default_notificationData :: json where
  "default_notificationData = JObj
     [(''title'', JStr ''New Notification''),
      (''body'', JStr ''You have a new notification''),
      (''icon'', JStr ''/icon-192x192.png''),
      (''badge'', JStr ''/badge-72x72.png''),
      (''data'', JObj [])]"

definition default_vibrate :: json where
  "default_vibrate = JArr [JNum 200, JNum 100, JNum 200]"

definition default_actions :: json where
  "default_actions = JArr
     [JObj [(''action'', JStr ''view''), (''title'', JStr ''View''),
            (''icon'', JStr ''/icon-view.png'')],
      JObj [(''action'', JStr ''dismiss''), (''title'', JStr ''Dismiss''),
            (''icon'', JStr ''/icon-dismiss.png'')]]"

text \<open>
  The value of \<open>notificationData\<close> after the \<open>try\<close>: a payload that parses replaces the
  initial object as a whole; one that does not parse only sets its \<open>body\<close>.
\<close>

definition received_notificationData :: "push_data option \<Rightarrow> json" where
  "received_notificationData d =
     (case d of
        None \<Rightarrow> default_notificationData
      | Some (JsonPayload j) \<Rightarrow> j
      | Some (TextPayload txt) \<Rightarrow> assign default_notificationData ''body'' (JStr txt))"

text \<open>
  The title and the options handed to \<open>showNotification\<close>.  A payload that parses to
  \<open>null\<close> makes the first property read throw.
\<close>

definition push_options :: "json \<Rightarrow> js_error + json option \<times> notification_options" where
  "push_options nd =
     (if nd = JNull then Inl TypeError
      else Inr (js_get nd ''title'',
        \<lparr> body = js_get nd ''body'',
          icon = or_else (js_get nd ''icon'') (JStr ''/icon-192x192.png''),
          badge = or_else (js_get nd ''badge'') (JStr ''/badge-72x72.png''),
          tag = or_else (js_get nd ''tag'') (JStr ''default''),
          requireInteraction = or_else (js_get nd ''requireInteraction'') (JBool False),
          vibrate = or_else (js_get nd ''vibrate'') default_vibrate,
          data = or_else (js_get nd ''data'') (JObj []),
          actions = or_else (js_get nd ''actions'') default_actions,
          silent = False \<rparr>))"

text \<open>
  The message \<open>{type: 'NOTIFICATION_CLICKED', url, notificationId, action}\<close> carries its
  three fields; a window client is an id and its URL.
\<close>

datatype client_message = NOTIFICATION_CLICKED json "json option" string

datatype window_client = WindowClient nat string

fun client_url :: "window_client \<Rightarrow> string" where
  "client_url (WindowClient i u) = u"

datatype worker_effect =
    ShowNotification "json option" notification_options
  | SetAppBadge json
  | NotificationClose
  | ClientFocus window_client
  | ClientPostMessage window_client client_message
  | OpenWindow json

text \<open>
  The push handler: show the notification and, in the \<open>then\<close> of that call, set the
  badge when the payload has a \<open>badgeCount\<close> and the platform has \<open>setAppBadge\<close>.
  When \<open>showNotification\<close> rejects, the \<open>catch\<close> only logs.
\<close>

definition on_push ::
  "bool \<Rightarrow> bool \<Rightarrow> push_data option \<Rightarrow> js_error + worker_effect list" where
  "on_push has_setAppBadge show_resolves d =
     (let nd = received_notificationData d
      in case push_options nd of
           Inl err \<Rightarrow> Inl err
         | Inr (title, options) \<Rightarrow>
             Inr (ShowNotification title options #
                  (if show_resolves then
                     (case js_get nd ''badgeCount'' of
                        None \<Rightarrow> []
                      | Some c \<Rightarrow> (if has_setAppBadge then [SetAppBadge c] else []))
                   else [])))"

subsection \<open>The data of a shown notification\<close>

text \<open>
  The worker shows notifications in two places: the push handler, with the options above,
  and \<open>fetchNewNotifications\<close>, which attaches
  \<open>{notificationId: notification.id, targetUrl: notification.targetUrl}\<close> to each pending
  notification it shows.  A property whose value is \<open>undefined\<close> reads like a property
  that is not there, so the object holds the properties that have a value.  Reading
  \<open>notification.title\<close> of an entry that is \<open>null\<close> throws before anything is shown.
\<close>

definition property :: "string \<Rightarrow> json option \<Rightarrow> (string \<times> json) list" where
  "property k v = (case v of None \<Rightarrow> [] | Some x \<Rightarrow> [(k, x)])"

definition catchup_data :: "json \<Rightarrow> json" where
  "catchup_data notification =
     JObj (property ''notificationId'' (js_get notification ''id'')
           @ property ''targetUrl'' (js_get notification ''targetUrl''))"

datatype shown_notification = ShownOnPush "push_data option" | ShownOnPeriodicSync json

fun shown_data :: "shown_notification \<Rightarrow> js_error + json" where
  "shown_data (ShownOnPush d) =
     (case push_options (received_notificationData d) of
        Inl err \<Rightarrow> Inl err
      | Inr (title, options) \<Rightarrow> Inr (data options))"
| "shown_data (ShownOnPeriodicSync notification) =
     (if notification = JNull then Inl TypeError else Inr (catchup_data notification))"

subsection \<open>Notification click\<close>

text \<open>
  The handler closes the notification first.  \<open>matchAll\<close> asks for window clients, which
  all have \<open>focus\<close>; the list it resolves with is an argument.  \<open>focus_resolves\<close> says
  whether the promise of \<open>client.focus()\<close> resolves: the message is posted in its
  \<open>then\<close>.  \<open>has_openWindow\<close> is the test \<open>clients.openWindow\<close>.  A property read on
  notification data that is \<open>null\<close> throws after the notification was closed.
\<close>

record click_env =
  clientList :: "window_client list"
  focus_resolves :: bool
  has_openWindow :: bool

definition on_notificationclick ::
  "string \<Rightarrow> click_env \<Rightarrow> string \<Rightarrow> json \<Rightarrow> worker_effect list \<times> js_error option" where
  "on_notificationclick self_origin env action ndata =
     (if action = ''dismiss'' then ([NotificationClose], None)
      else if ndata = JNull then ([NotificationClose], Some TypeError)
      else
        (let targetUrl = or_else (js_get ndata ''targetUrl'') (JStr ''/'');
             notificationId = js_get ndata ''notificationId''
         in case find (\<lambda>c. includesStr (client_url c) self_origin) (clientList env) of
              Some c \<Rightarrow>
                ([NotificationClose, ClientFocus c]
                   @ (if focus_resolves env
                      then [ClientPostMessage c
                              (NOTIFICATION_CLICKED targetUrl notificationId action)]
                      else []), None)
            | None \<Rightarrow>
                ([NotificationClose]
                   @ (if has_openWindow env then [OpenWindow targetUrl] else []), None)))"

subsection \<open>The worker's caches\<close>

text \<open>
  A response is its body and its headers; a request is its method and its URL.  The cache
  storage of the origin is a list of named caches, each a list of entries from a URL to a
  response.  \<open>caches.match\<close> answers a \<open>GET\<close> request with the first entry for its URL
  in the first cache that has one.  An entry that is added is put in front of the older
  ones, so a lookup finds it and not the entry it replaces.
\<close>

datatype response = Response json "(string \<times> string) list"

datatype request = Request string string

fun request_method :: "request \<Rightarrow> string" where
  "request_method (Request m u) = m"

fun request_url :: "request \<Rightarrow> string" where
  "request_url (Request m u) = u"

type_synonym cache_storage = "(string \<times> (string \<times> response) list) list"

definition VERSION :: string where
  "VERSION = ''1.0.0''"

definition CACHE_NAME :: string where
  "CACHE_NAME = ''water-supply-v'' @ VERSION"

definition ASSETS_TO_CACHE :: "string list" where
  "ASSETS_TO_CACHE =
     [''/'', ''/index.html'', ''/icon-192x192.png'', ''/icon-512x512.png'', ''/badge-72x72.png'']"

fun first_match :: "cache_storage \<Rightarrow> string \<Rightarrow> response option" where
  "first_match [] u = None"
| "first_match ((name, entries) # caches) u =
     (case map_of entries u of Some r \<Rightarrow> Some r | None \<Rightarrow> first_match caches u)"

definition caches_match :: "cache_storage \<Rightarrow> request \<Rightarrow> response option" where
  "caches_match storage req =
     (if request_method req = ''GET'' then first_match storage (request_url req) else None)"

definition caches_open :: "string \<Rightarrow> cache_storage \<Rightarrow> cache_storage" where
  "caches_open name storage =
     (if name \<in> fst ` set storage then storage else storage @ [(name, [])])"

definition cache_addAll ::
  "string \<Rightarrow> (string \<times> response) list \<Rightarrow> cache_storage \<Rightarrow> cache_storage" where
  "cache_addAll name new_entries storage =
     map (\<lambda>(n, entries). if n = name then (n, new_entries @ entries) else (n, entries)) storage"

text \<open>
  Install opens the cache of the current version and adds the assets, whose paths are
  resolved against the worker's origin.  \<open>fetch_asset\<close> is \<open>None\<close> for an asset whose
  fetch rejects or whose response is not \<open>ok\<close>; then \<open>addAll\<close> rejects, nothing is
  added and the installation fails.  Activate deletes every cache but the current one.
  These two handlers are the only code that writes the storage.
\<close>

definition on_install ::
  "string \<Rightarrow> (string \<Rightarrow> response option) \<Rightarrow> cache_storage \<Rightarrow> cache_storage \<times> bool" where
  "on_install self_origin fetch_asset storage =
     (let opened = caches_open CACHE_NAME storage
      in case those (map (\<lambda>p. map_option (Pair (self_origin @ p))
                                 (fetch_asset (self_origin @ p))) ASSETS_TO_CACHE) of
           None \<Rightarrow> (opened, False)
         | Some new_entries \<Rightarrow> (cache_addAll CACHE_NAME new_entries opened, True))"

definition on_activate :: "cache_storage \<Rightarrow> cache_storage" where
  "on_activate storage = filter (\<lambda>(name, entries). name = CACHE_NAME) storage"

text \<open>
  The storage after a history of installations and activations, each installation with
  what the network answered for the assets.
\<close>

datatype lifecycle_event = Install "string \<Rightarrow> response option" | Activate

fun worker_storage :: "string \<Rightarrow> lifecycle_event list \<Rightarrow> cache_storage \<Rightarrow> cache_storage" where
  "worker_storage self_origin [] storage = storage"
| "worker_storage self_origin (Install fetch_asset # evs) storage =
     worker_storage self_origin evs (fst (on_install self_origin fetch_asset storage))"
| "worker_storage self_origin (Activate # evs) storage =
     worker_storage self_origin evs (on_activate storage)"

text \<open>
  The URLs of the assets under an origin, and the storages all of whose entries are assets
  of the worker.
\<close>

definition asset_url :: "string \<Rightarrow> string \<Rightarrow> bool" where
  "asset_url self_origin u = (u \<in> set (map (\<lambda>p. self_origin @ p) ASSETS_TO_CACHE))"

definition assets_only :: "string \<Rightarrow> cache_storage \<Rightarrow> bool" where
  "assets_only self_origin storage =
     list_all (\<lambda>c. list_all (\<lambda>e. asset_url self_origin (fst e)) (snd c)) storage"

subsection \<open>Fetch interception\<close>

text \<open>
  \<open>network\<close> is what \<open>fetch\<close> does with a request: \<open>None\<close> is a rejection.  The handler
  either returns without answering, and the browser handles the request itself, or
  answers with a response (\<open>None\<close> when the promise given to \<open>respondWith\<close> yields no
  response).  The second component lists the network requests the worker issued.
  \<open>caches.match('/index.html')\<close> looks up the app shell under the worker's origin.
\<close>

datatype fetch_result = NotIntercepted | RespondWith "response option"

definition offline_response :: response where
  "offline_response = Response
     (JObj [(''success'', JBool False), (''message'', JStr ''Offline'')])
     [(''Content-Type'', ''application/json'')]"

definition on_fetch ::
  "string \<Rightarrow> cache_storage \<Rightarrow> (request \<Rightarrow> response option) \<Rightarrow> request
     \<Rightarrow> fetch_result \<times> request list" where
  "on_fetch self_origin storage network req =
     (if \<not> startsWith (request_url req) self_origin then (NotIntercepted, [])
      else if includesStr (request_url req) ''/api/'' then
        (case network req of
           Some r \<Rightarrow> (RespondWith (Some r), [req])
         | None \<Rightarrow> (RespondWith (Some offline_response), [req]))
      else
        (case caches_match storage req of
           Some r \<Rightarrow> (RespondWith (Some r), [])
         | None \<Rightarrow>
             (case network req of
                Some r \<Rightarrow> (RespondWith (Some r), [req])
              | None \<Rightarrow>
                  (RespondWith
                     (caches_match storage (Request ''GET'' (self_origin @ ''/index.html''))),
                   [req]))))"

subsection \<open>Example clicks and caches\<close>

text \<open>
  A worker with one open window of the app, one with none, the data of a notification
  about an order and a push that shows it, and a network that answers every asset with a
  response holding its URL.
\<close>

definition one_window :: click_env where
  "one_window = \<lparr> clientList = [WindowClient 1 ''https://app.example/rider''],
     focus_resolves = True, has_openWindow = True \<rparr>"

definition no_window :: click_env where
  "no_window = \<lparr> clientList = [], focus_resolves = True, has_openWindow = True \<rparr>"

definition order_data :: json where
  "order_data = JObj [(''notificationId'', JStr ''n7''), (''targetUrl'', JStr ''/orders/7'')]"

definition order_push :: shown_notification where
  "order_push = ShownOnPush (Some (JsonPayload
     (JObj [(''title'', JStr ''Order 7''), (''body'', JStr ''Assigned to you''),
            (''data'', order_data)])))"

definition shell_network :: "string \<Rightarrow> response option" where
  "shell_network u = Some (Response (JStr u) [])"

section \<open>Properties of the unread count\<close>

text \<open>
  C2.  When the channel authenticates and the verification event reports the unread count
  \<open>N\<close>, the local count becomes exactly \<open>N\<close>, whatever it was before: the server's value
  overwrites the local one.
\<close>

theorem connection_verified_overwrites:
  "unreadCount (fst (on_connection_verified (Num N) m)) = Num N"
  by (simp add: on_connection_verified_def Let_def)

subsection \<open>What initialization leaves alone\<close>

lemma registerServiceWorker_fields:
  "registerServiceWorker e m = Inr m' \<Longrightarrow>
     unreadCount m' = unreadCount m \<and> initializationAttempts m' = initializationAttempts m
     \<and> isInitializing m' = isInitializing m \<and> vapidPublicKey m' = vapidPublicKey m
     \<and> socket m' = socket m"
  by (auto simp: registerServiceWorker_def split: if_splits)

lemma fetchVapidPublicKey_fields:
  "fetchVapidPublicKey v m = Inr m' \<Longrightarrow>
     unreadCount m' = unreadCount m \<and> initializationAttempts m' = initializationAttempts m
     \<and> isInitializing m' = isInitializing m \<and> socket m' = socket m"
  by (cases "(v, m)" rule: fetchVapidPublicKey.cases) auto

lemma sendSubscriptionToBackend_fields:
  "sendSubscriptionToBackend b m = (m', es) \<Longrightarrow>
     unreadCount m' = unreadCount m \<and> initializationAttempts m' = initializationAttempts m
     \<and> isInitializing m' = isInitializing m \<and> vapidPublicKey m' = vapidPublicKey m
     \<and> socket m' = socket m"
  by (cases "(b, m)" rule: sendSubscriptionToBackend.cases) auto

lemma subscribeToPushNotifications_fields:
  "subscribeToPushNotifications e m = (m', es) \<Longrightarrow>
     unreadCount m' = unreadCount m \<and> initializationAttempts m' = initializationAttempts m
     \<and> isInitializing m' = isInitializing m \<and> vapidPublicKey m' = vapidPublicKey m
     \<and> socket m' = socket m"
  by (auto simp: subscribeToPushNotifications_def split: if_splits
        dest: sendSubscriptionToBackend_fields)

lemma connectWebSocket_fields:
  "connectWebSocket m = (m', es) \<Longrightarrow>
     unreadCount m' = unreadCount m \<and> initializationAttempts m' = initializationAttempts m
     \<and> isInitializing m' = isInitializing m \<and> vapidPublicKey m' = vapidPublicKey m
     \<and> socket m' \<noteq> None \<and> ConnectWebSocket \<in> set es"
  by (auto simp: connectWebSocket_def split: if_splits)

lemma initialize_unreadCount: "unreadCount (manager_of (initialize uid e m)) = unreadCount m"
  by (auto simp: initialize_def manager_of_def Let_def
      split: sum.splits prod.splits if_splits
      dest!: registerServiceWorker_fields fetchVapidPublicKey_fields
        subscribeToPushNotifications_fields connectWebSocket_fields)

subsection \<open>The count stays a non-negative integer\<close>

lemma nonneg_integer_iff: "nonneg_integer c \<longleftrightarrow> (\<exists>n::nat. c = Num (of_nat n))"
proof
  assume "nonneg_integer c"
  then obtain r where r: "c = Num r" "0 \<le> r" "of_int \<lfloor>r\<rfloor> = r"
    by (cases c) auto
  then have "0 \<le> \<lfloor>r\<rfloor>" by simp
  then have "of_nat (nat \<lfloor>r\<rfloor>) = r" using r(3) by simp
  with r(1) show "\<exists>n::nat. c = Num (of_nat n)" by metis
next
  assume "\<exists>n::nat. c = Num (of_nat n)"
  then show "nonneg_integer c" by auto
qed

lemma nonneg_integer_increment: "nonneg_integer c \<Longrightarrow> nonneg_integer (increment c)"
proof -
  assume "nonneg_integer c"
  then obtain n :: nat where "c = Num (of_nat n)" by (auto simp: nonneg_integer_iff)
  then have "increment c = Num (of_nat (Suc n))" by simp
  then show ?thesis unfolding nonneg_integer_iff by blast
qed

lemma decrement_of_nat:
  "gt_zero (Num (of_nat n)) \<Longrightarrow> decrement (Num (of_nat n)) = Num (of_nat (n - 1))"
  by (cases n) simp_all

lemma nonneg_integer_decrement:
  "nonneg_integer c \<Longrightarrow> gt_zero c \<Longrightarrow> nonneg_integer (decrement c)"
proof -
  assume "nonneg_integer c" and pos: "gt_zero c"
  then obtain n :: nat where n: "c = Num (of_nat n)" by (auto simp: nonneg_integer_iff)
  with pos have "decrement c = Num (of_nat (n - 1))" by (simp only: decrement_of_nat)
  then show ?thesis unfolding nonneg_integer_iff by blast
qed

lemma markAsRead_count:
  "unreadCount (fst (markAsRead nid ok m)) =
     (if ok \<and> gt_zero (unreadCount m) then decrement (unreadCount m) else unreadCount m)"
  by (simp add: markAsRead_def Let_def)

lemma markAsClicked_manager: "fst (markAsClicked nid ok m) = fst (markAsRead nid ok m)"
  by (simp add: markAsClicked_def split: prod.splits)

lemma step_nonneg_integer:
  assumes "nonneg_integer (unreadCount m)" and "server_count_ok x"
  shows "nonneg_integer (unreadCount (step x m))"
proof (cases x)
  case (Initialize uid e)
  with assms show ?thesis by (simp add: initialize_unreadCount)
next
  case (ConnectionVerified c)
  with assms show ?thesis by (simp add: on_connection_verified_def)
next
  case (NotificationNew nid visible)
  with assms show ?thesis
    by (simp add: on_notification_new_def Let_def nonneg_integer_increment)
next
  case (BecameVisible p)
  with assms show ?thesis by (cases p) simp_all
next
  case (MarkAsRead nid ok)
  with assms show ?thesis
    by (simp add: markAsRead_count nonneg_integer_decrement)
next
  case (MarkAsClicked nid ok)
  with assms show ?thesis
    by (simp add: markAsClicked_manager markAsRead_count nonneg_integer_decrement)
qed (use assms in \<open>simp_all add: on_connect_def on_disconnect_def on_read_sync_def
      on_all_read_def on_badge_update_def markAllAsRead_def disconnect_def Let_def\<close>)

text \<open>
  C1 (as the code has it).  Take any sequence of the manager's operations, among them the
  inbound events \<open>notification:new\<close>, \<open>notification:badge-update\<close> and
  \<open>notification:all-read\<close> and the calls of \<open>markAsRead\<close> and \<open>markAllAsRead\<close>.  If the
  count is a non-negative integer at the start and every absolute count that the server
  supplies is a non-negative integer, then the count is a non-negative integer after every
  step.
\<close>

theorem unreadCount_nonneg_after_every_step:
  assumes "nonneg_integer (unreadCount m)" and "\<forall>x \<in> set ops. server_count_ok x"
  shows "\<forall>m' \<in> set (trace m ops). nonneg_integer (unreadCount m')"
  using assms
proof (induction ops arbitrary: m)
  case Nil
  then show ?case by simp
next
  case (Cons x xs)
  have "nonneg_integer (unreadCount (step x m))"
    using Cons.prems by (simp add: step_nonneg_integer)
  moreover from this
  have "\<forall>m' \<in> set (trace (step x m) xs). nonneg_integer (unreadCount m')"
    using Cons.IH Cons.prems by simp
  ultimately show ?case by simp
qed

text \<open>
  A run of six operations on a fresh manager that meets both hypotheses.
\<close>

theorem unreadCount_nonneg_witness:
  "nonneg_integer (unreadCount new_manager)
   \<and> list_all server_count_ok
        [NotificationNew ''n1'' True, BadgeUpdate (Num 2), MarkAsRead ''n1'' True,
         AllRead, MarkAsRead ''n2'' True, MarkAllAsRead False]
   \<and> list_all (\<lambda>m'. nonneg_integer (unreadCount m'))
        (trace new_manager
           [NotificationNew ''n1'' True, BadgeUpdate (Num 2), MarkAsRead ''n1'' True,
            AllRead, MarkAsRead ''n2'' True, MarkAllAsRead False])"
proof -
  have a: "nonneg_integer (unreadCount new_manager)" by (simp add: new_manager_def)
  have b: "\<forall>x \<in> set [NotificationNew ''n1'' True, BadgeUpdate (Num 2), MarkAsRead ''n1'' True,
                    AllRead, MarkAsRead ''n2'' True, MarkAllAsRead False].
         server_count_ok x" by simp
  from a b unreadCount_nonneg_after_every_step [OF a b] show ?thesis
    unfolding list_all_iff by blast
qed

text \<open>
  Without the hypothesis on the server's counts the property fails, since the badge-update
  handler stores the count as it arrives.  One event carrying \<open>-1\<close> makes the count of a
  fresh manager negative; one carrying a half, which is not negative, followed by a
  \<open>markAsRead\<close> whose HTTP call resolves makes it minus a half; one without a count makes
  it \<open>undefined\<close>.
\<close>

theorem unreadCount_negative_counterexample:
  "unreadCount (step (BadgeUpdate (Num (- 1))) new_manager) = Num (- 1)
   \<and> unreadCount (run new_manager [BadgeUpdate (Num (1 / 2)), MarkAsRead ''n1'' True])
       = Num (- (1 / 2))
   \<and> unreadCount (step (BadgeUpdate Undefined) new_manager) = Undefined"
  by (simp add: on_badge_update_def markAsRead_def new_manager_def Let_def)

subsection \<open>Marking as read\<close>

text \<open>
  C3 (as the code has it).  \<open>markAsRead\<close> always issues the HTTP write, and issues the
  realtime emit exactly when a socket object exists.  The count is touched only after the
  HTTP call.  When the call resolves, a count above zero goes down by one and any other
  count is left as it is; so a count that is a non-negative integer goes down by one,
  clamped at zero.  When the call rejects, the manager is left as it was.
\<close>

theorem markAsRead_decrements_only_when_fetch_resolves:
  "HttpPost ''/notifications/mark-read'' \<in> set (snd (markAsRead nid ok m))
   \<and> (SocketEmit ''notification:mark-read'' (Some nid) \<in> set (snd (markAsRead nid ok m))
        \<longleftrightarrow> socket m \<noteq> None)
   \<and> (ok \<and> unreadCount m = Num r \<and> 0 < r \<longrightarrow>
        unreadCount (fst (markAsRead nid ok m)) = Num (r - 1))
   \<and> (ok \<and> \<not> gt_zero (unreadCount m) \<longrightarrow> fst (markAsRead nid ok m) = m)
   \<and> (ok \<and> unreadCount m = Num (of_nat n) \<longrightarrow>
        unreadCount (fst (markAsRead nid ok m)) = Num (of_nat (n - 1)))
   \<and> (\<not> ok \<longrightarrow> fst (markAsRead nid ok m) = m)"
proof (intro conjI impI)
  show "HttpPost ''/notifications/mark-read'' \<in> set (snd (markAsRead nid ok m))"
    by (simp add: markAsRead_def Let_def)
next
  show "SocketEmit ''notification:mark-read'' (Some nid) \<in> set (snd (markAsRead nid ok m))
          \<longleftrightarrow> socket m \<noteq> None"
    by (cases "socket m") (auto simp: markAsRead_def socket_emit_def Let_def)
next
  assume "ok \<and> unreadCount m = Num r \<and> 0 < r"
  then show "unreadCount (fst (markAsRead nid ok m)) = Num (r - 1)"
    by (simp add: markAsRead_count)
next
  assume "ok \<and> \<not> gt_zero (unreadCount m)"
  then show "fst (markAsRead nid ok m) = m"
    by (simp add: markAsRead_def Let_def)
next
  assume h: "ok \<and> unreadCount m = Num (of_nat n)"
  show "unreadCount (fst (markAsRead nid ok m)) = Num (of_nat (n - 1))"
  proof (cases n)
    case 0
    with h show ?thesis by (simp add: markAsRead_count)
  next
    case (Suc k)
    with h show ?thesis by (simp add: markAsRead_count)
  qed
next
  assume "\<not> ok"
  then show "fst (markAsRead nid ok m) = m"
    by (simp add: markAsRead_def Let_def)
qed

theorem markAsRead_witness:
  "unreadCount (fst (markAsRead ''n1'' True (new_manager\<lparr>unreadCount := Num 5\<rparr>))) = Num 4
   \<and> unreadCount (fst (markAsRead ''n1'' True new_manager)) = Num 0
   \<and> fst (markAsRead ''n1'' False (new_manager\<lparr>unreadCount := Num 5\<rparr>))
       = new_manager\<lparr>unreadCount := Num 5\<rparr>"
  using markAsRead_decrements_only_when_fetch_resolves
          [of "''n1''" True "new_manager\<lparr>unreadCount := Num 5\<rparr>" 5 5]
        markAsRead_decrements_only_when_fetch_resolves [of "''n1''" True new_manager 0 0]
        markAsRead_decrements_only_when_fetch_resolves
          [of "''n1''" False "new_manager\<lparr>unreadCount := Num 5\<rparr>" 5 5]
  by (simp add: new_manager_def)

text \<open>
  The decrement is not applied regardless of the HTTP write: with a count of five and a
  rejected fetch the count stays five.  Nor is every count clamped at zero: a badge update
  of a half followed by a \<open>markAsRead\<close> whose HTTP call resolves leaves minus a half.
\<close>

theorem markAsRead_fetch_rejected_counterexample:
  "unreadCount (fst (markAsRead ''n1'' False (new_manager\<lparr>unreadCount := Num 5\<rparr>))) = Num 5
   \<and> unreadCount (fst (markAsRead ''n1'' True (step (BadgeUpdate (Num (1 / 2))) new_manager)))
       = Num (- (1 / 2))"
  by (simp add: markAsRead_def on_badge_update_def new_manager_def Let_def)

text \<open>
  C6 (as the code has it).  When the HTTP write of the first \<open>markAllAsRead\<close> resolves,
  the count is zero after the first call and after the second, whatever the second write
  does, and the second call leaves the manager as the first left it.  A call whose HTTP
  write rejects changes nothing in the manager.
\<close>

theorem markAllAsRead_idempotent_when_fetch_resolves:
  "(ok1 \<longrightarrow>
      unreadCount (fst (markAllAsRead ok1 m)) = Num 0
      \<and> unreadCount (fst (markAllAsRead ok2 (fst (markAllAsRead ok1 m)))) = Num 0
      \<and> fst (markAllAsRead ok2 (fst (markAllAsRead ok1 m))) = fst (markAllAsRead ok1 m))
   \<and> (\<not> ok1 \<longrightarrow> fst (markAllAsRead ok1 m) = m)"
  by (simp add: markAllAsRead_def Let_def)

theorem markAllAsRead_witness:
  "unreadCount (fst (markAllAsRead True (new_manager\<lparr>unreadCount := Num 5\<rparr>))) = Num 0
   \<and> fst (markAllAsRead True
         (fst (markAllAsRead True (new_manager\<lparr>unreadCount := Num 5\<rparr>))))
       = fst (markAllAsRead True (new_manager\<lparr>unreadCount := Num 5\<rparr>))"
  using markAllAsRead_idempotent_when_fetch_resolves
          [of True "new_manager\<lparr>unreadCount := Num 5\<rparr>" True]
  by simp

text \<open>
  With both HTTP writes rejected, a count of five is still five after each of the two
  calls.
\<close>

theorem markAllAsRead_fetch_rejected_counterexample:
  "unreadCount (fst (markAllAsRead False (new_manager\<lparr>unreadCount := Num 5\<rparr>))) \<noteq> Num 0
   \<and> unreadCount (fst (markAllAsRead False
         (fst (markAllAsRead False (new_manager\<lparr>unreadCount := Num 5\<rparr>))))) \<noteq> Num 0"
  by (simp add: markAllAsRead_def new_manager_def Let_def)

section \<open>Properties of initialization\<close>

lemma initialize_skipped:
  "isInitializing m \<or> maxInitializationAttempts \<le> initializationAttempts m \<Longrightarrow>
     manager_of (initialize uid e m) = m \<and> effects_of (initialize uid e m) = []
     \<and> outcome_of (initialize uid e m) \<in> {InProgress, MaxAttemptsReached}"
  by (auto simp: initialize_def manager_of_def effects_of_def outcome_of_def)

lemma initialize_max_attempts:
  "\<not> isInitializing m \<Longrightarrow> maxInitializationAttempts \<le> initializationAttempts m \<Longrightarrow>
     initialize uid e m = (MaxAttemptsReached, m, [])"
  by (simp add: initialize_def)

lemma initialize_runs:
  assumes "\<not> isInitializing m" and "initializationAttempts m < maxInitializationAttempts"
  shows "initializationAttempts (manager_of (initialize uid e m)) = initializationAttempts m + 1
         \<and> \<not> isInitializing (manager_of (initialize uid e m))
         \<and> outcome_of (initialize uid e m) \<in> {Completed, Failed}"
  using assms
  by (auto simp: initialize_def manager_of_def outcome_of_def Let_def
      split: sum.splits prod.splits
      dest!: registerServiceWorker_fields fetchVapidPublicKey_fields
        subscribeToPushNotifications_fields connectWebSocket_fields)

lemma initialize_ran:
  assumes "outcome_of (initialize uid e m) \<in> {Completed, Failed}"
  shows "initializationAttempts (manager_of (initialize uid e m)) = initializationAttempts m + 1
         \<and> \<not> isInitializing (manager_of (initialize uid e m))"
proof (cases "isInitializing m \<or> maxInitializationAttempts \<le> initializationAttempts m")
  case True
  from initialize_skipped [OF True, of uid e] assms show ?thesis by auto
next
  case False
  then show ?thesis using initialize_runs [of m uid e] by simp
qed

lemma initialize_flag_attempts:
  "isInitializing (manager_of (initialize uid e m)) = isInitializing m
   \<and> initializationAttempts m \<le> initializationAttempts (manager_of (initialize uid e m))"
proof (cases "isInitializing m \<or> maxInitializationAttempts \<le> initializationAttempts m")
  case True
  from initialize_skipped [OF True, of uid e] show ?thesis by simp
next
  case False
  then show ?thesis using initialize_runs [of m uid e] by simp
qed

lemma step_flag_attempts:
  "isInitializing (step x m) = isInitializing m
   \<and> initializationAttempts m \<le> initializationAttempts (step x m)"
proof (cases x)
  case (Initialize uid e)
  then show ?thesis by (simp add: initialize_flag_attempts)
next
  case (BecameVisible p)
  then show ?thesis by (cases p) simp_all
qed (simp_all add: on_connect_def on_disconnect_def on_connection_verified_def
      on_notification_new_def on_read_sync_def on_all_read_def on_badge_update_def
      markAsRead_def markAsClicked_def markAllAsRead_def disconnect_def Let_def
      split: prod.splits)

lemma run_flag_attempts:
  "isInitializing (run m ops) = isInitializing m
   \<and> initializationAttempts m \<le> initializationAttempts (run m ops)"
proof (induction ops arbitrary: m)
  case Nil
  then show ?case by simp
next
  case (Cons x xs)
  have "initializationAttempts m \<le> initializationAttempts (step x m)"
    by (simp add: step_flag_attempts)
  also have "\<dots> \<le> initializationAttempts (run (step x m) xs)"
    by (simp add: Cons.IH)
  finally show ?case
    by (simp add: Cons.IH step_flag_attempts del: step.simps)
qed

lemma run_append: "run m (xs @ ys) = run (run m xs) ys"
  by (induction xs arbitrary: m) simp_all

lemma step_initialize_counts:
  assumes "\<not> isInitializing m"
  shows "min maxInitializationAttempts (initializationAttempts m + 1)
       \<le> initializationAttempts (step (Initialize uid e) m)"
proof (cases "maxInitializationAttempts \<le> initializationAttempts m")
  case True
  then show ?thesis using initialize_skipped [of m uid e] by simp
next
  case False
  then show ?thesis using assms initialize_runs [of m uid e] by simp
qed

text \<open>
  C4.  After three consecutive failing \<open>initialize\<close> calls on one manager, the manager
  is disabled for good: whatever operations follow, every further \<open>initialize\<close> call
  returns at the attempt guard, leaving the manager as it is and issuing no effect, and the
  counter stays at or above the cap, since no operation lowers it.  Only a fresh manager
  starts again from zero, and its \<open>initialize\<close> call does run.
\<close>

theorem three_failed_initializations_disable:
  assumes m1: "m1 = manager_of (initialize u1 e1 m0)"
      and m2: "m2 = manager_of (initialize u2 e2 m1)"
      and m3: "m3 = manager_of (initialize u3 e3 m2)"
      and f1: "outcome_of (initialize u1 e1 m0) = Failed"
      and f2: "outcome_of (initialize u2 e2 m1) = Failed"
      and f3: "outcome_of (initialize u3 e3 m2) = Failed"
  shows "initialize uid e (run m3 ops) = (MaxAttemptsReached, run m3 ops, [])
         \<and> maxInitializationAttempts \<le> initializationAttempts (run m3 ops)
         \<and> initializationAttempts new_manager = 0
         \<and> outcome_of (initialize uid e new_manager) \<in> {Completed, Failed}"
proof -
  from f1 have a1: "initializationAttempts m1 = initializationAttempts m0 + 1"
    using initialize_ran [of u1 e1 m0] m1 by simp
  from f2 have a2: "initializationAttempts m2 = initializationAttempts m1 + 1"
    using initialize_ran [of u2 e2 m1] m2 by simp
  from f3 have a3: "initializationAttempts m3 = initializationAttempts m2 + 1"
    and flag: "\<not> isInitializing m3"
    using initialize_ran [of u3 e3 m2] m3 by simp_all
  from a1 a2 a3 have "maxInitializationAttempts \<le> initializationAttempts m3"
    by (simp add: maxInitializationAttempts_def)
  also have "\<dots> \<le> initializationAttempts (run m3 ops)"
    by (simp add: run_flag_attempts)
  finally have cap: "maxInitializationAttempts \<le> initializationAttempts (run m3 ops)" .
  moreover have "\<not> isInitializing (run m3 ops)"
    using flag by (simp add: run_flag_attempts)
  ultimately have "initialize uid e (run m3 ops) = (MaxAttemptsReached, run m3 ops, [])"
    by (simp add: initialize_max_attempts)
  moreover have "outcome_of (initialize uid e new_manager) \<in> {Completed, Failed}"
    using initialize_runs [of new_manager uid e]
    by (simp add: new_manager_def maxInitializationAttempts_def)
  ultimately show ?thesis using cap by (simp add: new_manager_def)
qed

lemma failing_env_fails:
  "\<not> isInitializing m \<Longrightarrow> initializationAttempts m < maxInitializationAttempts \<Longrightarrow>
     initialize uid failing_env m =
       (Failed, m\<lparr>initializationAttempts := initializationAttempts m + 1,
                  userId := Some uid\<rparr>, [RegisterServiceWorker])"
  by (simp add: initialize_def failing_env_def registerServiceWorker_def Let_def)


lemma failed_once_eq:
  "failed_once = new_manager\<lparr>initializationAttempts := 1, userId := Some ''rider-1''\<rparr>"
  by (simp add: failed_once_def failing_env_fails manager_of_def new_manager_def
      maxInitializationAttempts_def)

lemma failed_twice_eq:
  "failed_twice = new_manager\<lparr>initializationAttempts := 2, userId := Some ''rider-1''\<rparr>"
  by (simp add: failed_twice_def failed_once_eq failing_env_fails manager_of_def new_manager_def
      maxInitializationAttempts_def)

lemma failed_thrice_eq:
  "failed_thrice = new_manager\<lparr>initializationAttempts := 3, userId := Some ''rider-1''\<rparr>"
  by (simp add: failed_thrice_def failed_twice_eq failing_env_fails manager_of_def new_manager_def
      maxInitializationAttempts_def)

theorem three_failed_initializations_witness:
  "outcome_of (initialize ''rider-1'' failing_env new_manager) = Failed
   \<and> outcome_of (initialize ''rider-1'' failing_env failed_once) = Failed
   \<and> outcome_of (initialize ''rider-1'' failing_env failed_twice) = Failed
   \<and> initialize ''rider-1'' vapid_failing_env (run failed_thrice [Disconnect, AllRead])
       = (MaxAttemptsReached, run failed_thrice [Disconnect, AllRead], [])"
proof -
  have f1: "outcome_of (initialize ''rider-1'' failing_env new_manager) = Failed"
    by (simp add: failing_env_fails outcome_of_def new_manager_def maxInitializationAttempts_def)
  have f2: "outcome_of (initialize ''rider-1'' failing_env failed_once) = Failed"
    by (simp add: failed_once_eq failing_env_fails outcome_of_def new_manager_def
        maxInitializationAttempts_def)
  have f3: "outcome_of (initialize ''rider-1'' failing_env failed_twice) = Failed"
    by (simp add: failed_twice_eq failing_env_fails outcome_of_def new_manager_def
        maxInitializationAttempts_def)
  from three_failed_initializations_disable
         [OF failed_once_def failed_twice_def failed_thrice_def f1 f2 f3,
          of "''rider-1''" vapid_failing_env "[Disconnect, AllRead]"]
  show ?thesis using f1 f2 f3 by simp
qed

text \<open>
  C5.  Every \<open>initialize\<close> call that gets past the two guards increments the attempt
  counter, whether it then completes or fails.  So after three such calls the fourth call
  is a no-op: it returns at the attempt guard with the manager unchanged and no effect.
  In particular this holds after any three \<open>initialize\<close> calls made one after the other
  on a manager that started fresh, whatever happened to it before (\<open>pre\<close>).
\<close>

theorem every_run_counts_as_attempt:
  "(outcome_of (initialize u e m) \<in> {Completed, Failed} \<longrightarrow>
      initializationAttempts (manager_of (initialize u e m)) = initializationAttempts m + 1)
   \<and> (outcome_of (initialize u1 e1 m) \<in> {Completed, Failed}
       \<and> outcome_of (initialize u2 e2 (manager_of (initialize u1 e1 m))) \<in> {Completed, Failed}
       \<and> outcome_of (initialize u3 e3
            (manager_of (initialize u2 e2 (manager_of (initialize u1 e1 m)))))
           \<in> {Completed, Failed} \<longrightarrow>
       initialize u4 e4 (manager_of (initialize u3 e3
            (manager_of (initialize u2 e2 (manager_of (initialize u1 e1 m))))))
         = (MaxAttemptsReached,
            manager_of (initialize u3 e3
              (manager_of (initialize u2 e2 (manager_of (initialize u1 e1 m))))), []))
   \<and> initialize u4 e4
        (run new_manager (pre @ [Initialize u1 e1, Initialize u2 e2, Initialize u3 e3]))
       = (MaxAttemptsReached,
          run new_manager (pre @ [Initialize u1 e1, Initialize u2 e2, Initialize u3 e3]), [])"
proof (intro conjI impI)
  assume "outcome_of (initialize u e m) \<in> {Completed, Failed}"
  then show "initializationAttempts (manager_of (initialize u e m)) = initializationAttempts m + 1"
    by (simp add: initialize_ran)
next
  define m1 where "m1 = manager_of (initialize u1 e1 m)"
  define m2 where "m2 = manager_of (initialize u2 e2 m1)"
  define m3 where "m3 = manager_of (initialize u3 e3 m2)"
  assume "outcome_of (initialize u1 e1 m) \<in> {Completed, Failed}
       \<and> outcome_of (initialize u2 e2 (manager_of (initialize u1 e1 m))) \<in> {Completed, Failed}
       \<and> outcome_of (initialize u3 e3
            (manager_of (initialize u2 e2 (manager_of (initialize u1 e1 m)))))
           \<in> {Completed, Failed}"
  then have r1: "outcome_of (initialize u1 e1 m) \<in> {Completed, Failed}"
    and r2: "outcome_of (initialize u2 e2 m1) \<in> {Completed, Failed}"
    and r3: "outcome_of (initialize u3 e3 m2) \<in> {Completed, Failed}"
    by (simp_all add: m1_def m2_def)
  have "initializationAttempts m1 = initializationAttempts m + 1"
    using initialize_ran [OF r1] by (simp add: m1_def)
  moreover have "initializationAttempts m2 = initializationAttempts m1 + 1"
    using initialize_ran [OF r2] by (simp add: m2_def)
  moreover have "initializationAttempts m3 = initializationAttempts m2 + 1"
    and "\<not> isInitializing m3"
    using initialize_ran [OF r3] by (simp_all add: m3_def)
  ultimately have "initialize u4 e4 m3 = (MaxAttemptsReached, m3, [])"
    by (simp add: initialize_max_attempts maxInitializationAttempts_def)
  then show "initialize u4 e4 (manager_of (initialize u3 e3
            (manager_of (initialize u2 e2 (manager_of (initialize u1 e1 m))))))
         = (MaxAttemptsReached,
            manager_of (initialize u3 e3
              (manager_of (initialize u2 e2 (manager_of (initialize u1 e1 m))))), [])"
    by (simp add: m1_def m2_def m3_def)
next
  define m0 where "m0 = run new_manager pre"
  define m1 where "m1 = step (Initialize u1 e1) m0"
  define m2 where "m2 = step (Initialize u2 e2) m1"
  define m3 where "m3 = step (Initialize u3 e3) m2"
  have g0: "\<not> isInitializing m0"
    by (simp add: m0_def run_flag_attempts new_manager_def)
  then have g1: "\<not> isInitializing m1" and g2: "\<not> isInitializing m2"
    and g3: "\<not> isInitializing m3"
    by (simp_all add: m1_def m2_def m3_def step_flag_attempts del: step.simps)
  have "min maxInitializationAttempts (initializationAttempts m0 + 1) \<le> initializationAttempts m1"
    using step_initialize_counts [OF g0] by (simp add: m1_def)
  moreover
  have "min maxInitializationAttempts (initializationAttempts m1 + 1) \<le> initializationAttempts m2"
    using step_initialize_counts [OF g1] by (simp add: m2_def)
  moreover
  have "min maxInitializationAttempts (initializationAttempts m2 + 1) \<le> initializationAttempts m3"
    using step_initialize_counts [OF g2] by (simp add: m3_def)
  ultimately have "maxInitializationAttempts \<le> initializationAttempts m3"
    by (simp add: maxInitializationAttempts_def)
  with g3 have "initialize u4 e4 m3 = (MaxAttemptsReached, m3, [])"
    by (simp add: initialize_max_attempts)
  moreover have "run new_manager (pre @ [Initialize u1 e1, Initialize u2 e2, Initialize u3 e3])
                   = m3"
    by (simp add: run_append m0_def m1_def m2_def m3_def)
  ultimately show "initialize u4 e4
        (run new_manager (pre @ [Initialize u1 e1, Initialize u2 e2, Initialize u3 e3]))
       = (MaxAttemptsReached,
          run new_manager (pre @ [Initialize u1 e1, Initialize u2 e2, Initialize u3 e3]), [])"
    by simp
qed

lemma vapid_failing_env_first_call:
  "initialize ''rider-1'' vapid_failing_env new_manager =
     (Completed,
      new_manager\<lparr>socket := Some False, userId := Some ''rider-1'', registration := True,
                   initializationAttempts := 1\<rparr>,
      [RegisterServiceWorker, FetchVapidPublicKey, RequestPermission, ConnectWebSocket,
       IoConnect, SetupServiceWorkerListener, SetupVisibilityChangeListener])"
  by (simp add: initialize_def vapid_failing_env_def new_manager_def
      maxInitializationAttempts_def registerServiceWorker_def requestPermission_def
      truthy_str_def connectWebSocket_def Let_def)

theorem every_run_counts_witness:
  "outcome_of (initialize ''rider-1'' vapid_failing_env new_manager) = Completed
   \<and> initializationAttempts (manager_of (initialize ''rider-1'' vapid_failing_env new_manager))
       = 1
   \<and> initialize ''rider-2'' failing_env
        (run new_manager [Initialize ''rider-1'' vapid_failing_env,
           Initialize ''rider-1'' failing_env, Initialize ''rider-1'' vapid_failing_env])
       = (MaxAttemptsReached,
          run new_manager [Initialize ''rider-1'' vapid_failing_env,
            Initialize ''rider-1'' failing_env, Initialize ''rider-1'' vapid_failing_env], [])"
proof -
  have c: "outcome_of (initialize ''rider-1'' vapid_failing_env new_manager) = Completed"
    by (simp add: vapid_failing_env_first_call outcome_of_def)
  from every_run_counts_as_attempt
         [of "''rider-1''" vapid_failing_env new_manager "''rider-1''" vapid_failing_env
             "''rider-1''" failing_env "''rider-1''" vapid_failing_env
             "''rider-2''" failing_env "[]"]
  show ?thesis using c by (simp add: new_manager_def del: run.simps)
qed

lemma vapid_throws:
  "\<forall>k. v \<noteq> VapidBody True k \<Longrightarrow> fetchVapidPublicKey v m = Inl VapidFetchFailed"
  by (cases "(v, m)" rule: fetchVapidPublicKey.cases) auto

text \<open>
  C7.  If an \<open>initialize\<close> call reaches the push-key request and the request fails
  (it rejects, times out, or answers anything but a successful body), the call still
  completes and still calls \<open>connectWebSocket\<close>: afterwards there is a socket object,
  newly created unless a connected one existed.  Unless a key was left from an earlier
  call, no push subscription is attempted.
\<close>

theorem vapid_failure_still_connects:
  assumes reached: "FetchVapidPublicKey \<in> set (effects_of (initialize uid e m))"
      and fails: "\<forall>k. vapid e \<noteq> VapidBody True k"
  shows "outcome_of (initialize uid e m) = Completed
         \<and> ConnectWebSocket \<in> set (effects_of (initialize uid e m))
         \<and> socket (manager_of (initialize uid e m)) \<noteq> None
         \<and> (socket m = Some True \<or> IoConnect \<in> set (effects_of (initialize uid e m)))
         \<and> (truthy_str (vapidPublicKey m)
             \<or> SubscribeToPushNotifications \<notin> set (effects_of (initialize uid e m)))"
  using assms
  by (auto simp: initialize_def effects_of_def manager_of_def outcome_of_def Let_def
        vapid_throws registerServiceWorker_def connectWebSocket_def
      split: if_splits prod.splits dest: subscribeToPushNotifications_fields)

theorem vapid_failure_witness:
  "FetchVapidPublicKey \<in> set (effects_of (initialize ''rider-1'' vapid_failing_env new_manager))
   \<and> vapid vapid_failing_env = VapidTimedOut
   \<and> outcome_of (initialize ''rider-1'' vapid_failing_env new_manager) = Completed
   \<and> ConnectWebSocket \<in> set (effects_of (initialize ''rider-1'' vapid_failing_env new_manager))
   \<and> IoConnect \<in> set (effects_of (initialize ''rider-1'' vapid_failing_env new_manager))
   \<and> SubscribeToPushNotifications
        \<notin> set (effects_of (initialize ''rider-1'' vapid_failing_env new_manager))"
proof -
  have r: "FetchVapidPublicKey
             \<in> set (effects_of (initialize ''rider-1'' vapid_failing_env new_manager))"
    by (simp add: vapid_failing_env_first_call effects_of_def)
  have v: "vapid vapid_failing_env = VapidTimedOut"
    by (simp add: vapid_failing_env_def)
  then have f: "\<forall>k. vapid vapid_failing_env \<noteq> VapidBody True k" by simp
  from vapid_failure_still_connects [OF r f] r v show ?thesis
    by (simp add: new_manager_def truthy_str_def)
qed

section \<open>Properties of the background worker\<close>

subsection \<open>The string tests\<close>

text \<open>
  \<open>startsWith\<close> holds of the strings that begin with the pattern and \<open>includesStr\<close>
  of those that contain it, as the methods \<open>startsWith\<close> and \<open>includes\<close> of a
  JavaScript string do.
\<close>

lemma startsWith_iff: "startsWith s p \<longleftrightarrow> (\<exists>b. s = p @ b)"
proof
  assume "startsWith s p"
  then have "s = p @ drop (length p) s"
    by (metis append_take_drop_id startsWith_def)
  then show "\<exists>b. s = p @ b" ..
next
  assume "\<exists>b. s = p @ b"
  then show "startsWith s p" by (auto simp: startsWith_def)
qed

lemma includesStr_iff: "includesStr s p \<longleftrightarrow> (\<exists>a b. s = a @ p @ b)"
proof (induction s)
  case Nil
  then show ?case by simp
next
  case (Cons c cs)
  show ?case
  proof
    assume "includesStr (c # cs) p"
    then consider "startsWith (c # cs) p" | "includesStr cs p" by auto
    then show "\<exists>a b. c # cs = a @ p @ b"
    proof cases
      case 1
      then obtain b where "c # cs = p @ b" by (auto simp: startsWith_iff)
      then have "c # cs = [] @ p @ b" by simp
      then show ?thesis by blast
    next
      case 2
      then obtain a b where "cs = a @ p @ b" using Cons.IH by auto
      then have "c # cs = (c # a) @ p @ b" by simp
      then show ?thesis by blast
    qed
  next
    assume "\<exists>a b. c # cs = a @ p @ b"
    then obtain a b where ab: "c # cs = a @ p @ b" by auto
    show "includesStr (c # cs) p"
    proof (cases a)
      case Nil
      with ab have "startsWith (c # cs) p" by (auto simp: startsWith_iff)
      then show ?thesis by simp
    next
      case (Cons x a')
      with ab have "cs = a' @ p @ b" by simp
      then have "includesStr cs p" using Cons.IH by auto
      then show ?thesis by simp
    qed
  qed
qed

subsection \<open>What the caches hold\<close>

lemma those_Some_set: "those xs = Some ys \<Longrightarrow> \<forall>y \<in> set ys. Some y \<in> set xs"
proof (induction xs arbitrary: ys)
  case Nil
  then show ?case by simp
next
  case (Cons x xs)
  then show ?case by (cases x) (auto split: option.splits)
qed

lemma assets_only_iff:
  "assets_only org st \<longleftrightarrow>
     (\<forall>c \<in> set st. \<forall>e \<in> set (snd c). asset_url org (fst e))"
  by (simp add: assets_only_def list_all_iff)

lemma assets_only_open: "assets_only org st \<Longrightarrow> assets_only org (caches_open name st)"
  by (simp add: assets_only_def caches_open_def)

lemma assets_only_addAll:
  assumes st: "assets_only org st"
    and new: "\<forall>e \<in> set new_entries. asset_url org (fst e)"
  shows "assets_only org (cache_addAll name new_entries st)"
  unfolding assets_only_iff
proof (intro ballI)
  fix c e
  assume c: "c \<in> set (cache_addAll name new_entries st)" and e: "e \<in> set (snd c)"
  from c obtain n entries where old: "(n, entries) \<in> set st"
    and c_eq: "c = (if n = name then (n, new_entries @ entries) else (n, entries))"
    unfolding cache_addAll_def by auto
  from old st have entries: "\<forall>e \<in> set entries. asset_url org (fst e)"
    unfolding assets_only_iff by force
  show "asset_url org (fst e)"
  proof (cases "n = name")
    case True
    with c_eq e have "e \<in> set new_entries \<or> e \<in> set entries" by simp
    with new entries show ?thesis by blast
  next
    case False
    with c_eq e have "e \<in> set entries" by simp
    with entries show ?thesis by blast
  qed
qed

lemma fetched_assets:
  assumes "those (map (\<lambda>p. map_option (Pair (org @ p)) (fetch_asset (org @ p))) assets)
             = Some new_entries"
  shows "\<forall>e \<in> set new_entries. fst e \<in> set (map (\<lambda>p. org @ p) assets)"
proof
  fix e
  assume "e \<in> set new_entries"
  with those_Some_set [OF assms]
  have "Some e \<in> set (map (\<lambda>p. map_option (Pair (org @ p)) (fetch_asset (org @ p))) assets)"
    by blast
  then obtain p where p: "p \<in> set assets"
    and "Some e = map_option (Pair (org @ p)) (fetch_asset (org @ p))"
    by auto
  then have "fst e = org @ p" by (cases "fetch_asset (org @ p)") auto
  with p show "fst e \<in> set (map (\<lambda>p. org @ p) assets)" by simp
qed

lemma assets_only_install:
  assumes "assets_only org st"
  shows "assets_only org (fst (on_install org fetch_asset st))"
proof (cases "those (map (\<lambda>p. map_option (Pair (org @ p)) (fetch_asset (org @ p)))
                       ASSETS_TO_CACHE)")
  case None
  with assms show ?thesis by (simp add: on_install_def assets_only_open)
next
  case (Some new_entries)
  have "\<forall>e \<in> set new_entries. asset_url org (fst e)"
    unfolding asset_url_def by (rule fetched_assets [OF Some])
  then have "assets_only org (cache_addAll CACHE_NAME new_entries (caches_open CACHE_NAME st))"
    using assms by (intro assets_only_addAll assets_only_open)
  with Some show ?thesis by (simp add: on_install_def)
qed

lemma assets_only_activate: "assets_only org st \<Longrightarrow> assets_only org (on_activate st)"
  by (simp add: assets_only_iff on_activate_def)

lemma assets_only_worker_storage:
  "assets_only org st \<Longrightarrow> assets_only org (worker_storage org evs st)"
proof (induction evs arbitrary: st)
  case Nil
  then show ?case by simp
next
  case (Cons ev evs)
  then show ?case
    by (cases ev) (simp_all add: assets_only_install assets_only_activate)
qed

lemma first_match_entry:
  "first_match st u = Some r \<Longrightarrow> \<exists>c \<in> set st. (u, r) \<in> set (snd c)"
proof (induction st)
  case Nil
  then show ?case by simp
next
  case (Cons c st)
  obtain name entries where c: "c = (name, entries)" by (cases c)
  show ?case
  proof (cases "map_of entries u")
    case None
    with Cons.prems c have "first_match st u = Some r" by simp
    with Cons.IH show ?thesis by auto
  next
    case (Some r')
    with Cons.prems c have "map_of entries u = Some r" by simp
    then have "(u, r) \<in> set entries" by (rule map_of_SomeD)
    with c show ?thesis by simp
  qed
qed

lemma asset_url_startsWith: "asset_url org u \<Longrightarrow> startsWith u org"
  by (auto simp: asset_url_def startsWith_def)

lemma cache_hit_same_origin:
  assumes "caches_match (worker_storage org evs []) req = Some r"
  shows "startsWith (request_url req) org"
proof -
  have inv: "assets_only org (worker_storage org evs [])"
    by (rule assets_only_worker_storage) (simp add: assets_only_def)
  from assms have "first_match (worker_storage org evs []) (request_url req) = Some r"
    by (simp add: caches_match_def split: if_splits)
  then obtain c where "c \<in> set (worker_storage org evs [])"
    and "(request_url req, r) \<in> set (snd c)"
    using first_match_entry by blast
  with inv have "asset_url org (fst (request_url req, r))"
    unfolding assets_only_iff by blast
  then show ?thesis by (simp add: asset_url_startsWith)
qed

lemma cross_origin_not_intercepted:
  "\<not> startsWith (request_url req) org \<Longrightarrow> on_fetch org st network req = (NotIntercepted, [])"
  by (simp add: on_fetch_def)

subsection \<open>Interception, clicks and push\<close>

text \<open>
  C8.  In the worker's fetch interception: a request whose URL starts with the worker's
  origin and contains \<open>/api/\<close> resolves, when the network fetch fails, to the JSON
  envelope \<open>{success: false, message: 'Offline'}\<close> and not to an error; and a request
  whose URL does not contain \<open>/api/\<close> and that has a hit in the caches, as any history of
  installations and activations of the worker leaves them, is answered with the cached
  response, the worker issuing no network request.
\<close>

theorem fetch_interception:
  "(startsWith (request_url req) org \<and> includesStr (request_url req) ''/api/''
      \<and> network req = None \<longrightarrow>
      on_fetch org st network req =
        (RespondWith (Some (Response
           (JObj [(''success'', JBool False), (''message'', JStr ''Offline'')])
           [(''Content-Type'', ''application/json'')])), [req]))
   \<and> (\<not> includesStr (request_url req) ''/api/''
      \<and> caches_match (worker_storage org evs []) req = Some r \<longrightarrow>
      on_fetch org (worker_storage org evs []) network req = (RespondWith (Some r), []))"
proof (intro conjI impI)
  assume "startsWith (request_url req) org \<and> includesStr (request_url req) ''/api/''
      \<and> network req = None"
  then show "on_fetch org st network req =
        (RespondWith (Some (Response
           (JObj [(''success'', JBool False), (''message'', JStr ''Offline'')])
           [(''Content-Type'', ''application/json'')])), [req])"
    by (simp add: on_fetch_def offline_response_def)
next
  assume h: "\<not> includesStr (request_url req) ''/api/''
      \<and> caches_match (worker_storage org evs []) req = Some r"
  then have "startsWith (request_url req) org"
    using cache_hit_same_origin by blast
  with h show "on_fetch org (worker_storage org evs []) network req
                 = (RespondWith (Some r), [])"
    by (simp add: on_fetch_def)
qed

lemma installed_storage:
  "worker_storage ''https://app.example'' [Install shell_network, Activate] [] =
     [(CACHE_NAME,
       [(''https://app.example/'', Response (JStr ''https://app.example/'') []),
        (''https://app.example/index.html'',
           Response (JStr ''https://app.example/index.html'') []),
        (''https://app.example/icon-192x192.png'',
           Response (JStr ''https://app.example/icon-192x192.png'') []),
        (''https://app.example/icon-512x512.png'',
           Response (JStr ''https://app.example/icon-512x512.png'') []),
        (''https://app.example/badge-72x72.png'',
           Response (JStr ''https://app.example/badge-72x72.png'') [])])]"
  by (simp add: on_install_def on_activate_def caches_open_def cache_addAll_def
      ASSETS_TO_CACHE_def shell_network_def)

theorem fetch_interception_witness:
  "on_fetch ''https://app.example'' [] Map.empty (Request ''POST'' ''https://app.example/api/orders'')
     = (RespondWith (Some (Response
           (JObj [(''success'', JBool False), (''message'', JStr ''Offline'')])
           [(''Content-Type'', ''application/json'')])),
        [Request ''POST'' ''https://app.example/api/orders''])
   \<and> caches_match (worker_storage ''https://app.example'' [Install shell_network, Activate] [])
        (Request ''GET'' ''https://app.example/index.html'')
     = Some (Response (JStr ''https://app.example/index.html'') [])
   \<and> on_fetch ''https://app.example''
        (worker_storage ''https://app.example'' [Install shell_network, Activate] [])
        Map.empty (Request ''GET'' ''https://app.example/index.html'')
     = (RespondWith (Some (Response (JStr ''https://app.example/index.html'') [])), [])"
proof -
  have a: "startsWith ''https://app.example/api/orders'' ''https://app.example''"
    by (simp add: startsWith_def)
  have b: "includesStr ''https://app.example/api/orders'' ''/api/''"
    by (simp add: startsWith_def)
  have d: "\<not> includesStr ''https://app.example/index.html'' ''/api/''"
    by (simp add: startsWith_def)
  have hit: "caches_match
        (worker_storage ''https://app.example'' [Install shell_network, Activate] [])
        (Request ''GET'' ''https://app.example/index.html'')
     = Some (Response (JStr ''https://app.example/index.html'') [])"
    unfolding installed_storage by (simp add: caches_match_def)
  from a b
    fetch_interception
      [of "Request ''POST'' ''https://app.example/api/orders''" "''https://app.example''"
          Map.empty "[]"]
  have 1: "on_fetch ''https://app.example'' [] Map.empty
             (Request ''POST'' ''https://app.example/api/orders'')
     = (RespondWith (Some (Response
           (JObj [(''success'', JBool False), (''message'', JStr ''Offline'')])
           [(''Content-Type'', ''application/json'')])),
        [Request ''POST'' ''https://app.example/api/orders''])"
    by simp
  from d hit
    fetch_interception
      [of "Request ''GET'' ''https://app.example/index.html''" "''https://app.example''"
          Map.empty "[]" "[Install shell_network, Activate]"
          "Response (JStr ''https://app.example/index.html'') []"]
  have 2: "on_fetch ''https://app.example''
        (worker_storage ''https://app.example'' [Install shell_network, Activate] [])
        Map.empty (Request ''GET'' ''https://app.example/index.html'')
     = (RespondWith (Some (Response (JStr ''https://app.example/index.html'') [])), [])"
    by simp
  from 1 hit 2 show ?thesis by simp
qed

lemma or_else_truthy: "truthy b \<Longrightarrow> truthy (or_else a b)"
  by (cases a) (simp_all add: or_else_def)

lemma or_else_absent: "or_else None b = b"
  by (simp add: or_else_def)

text \<open>
  The data of every notification the worker shows is truthy, so it is never \<open>null\<close>
  when the click handler reads it.
\<close>

lemma shown_data_not_null:
  assumes "shown_data s = Inr d"
  shows "truthy d \<and> d \<noteq> JNull"
proof (cases s)
  case (ShownOnPush p)
  with assms obtain title options
    where "push_options (received_notificationData p) = Inr (title, options)"
      and "d = data options"
    by (auto split: sum.splits)
  then have "d = or_else (js_get (received_notificationData p) ''data'') (JObj [])"
    by (auto simp: push_options_def split: if_splits)
  moreover have "truthy (or_else (js_get (received_notificationData p) ''data'') (JObj []))"
    by (rule or_else_truthy) simp
  ultimately show ?thesis by auto
next
  case (ShownOnPeriodicSync n)
  with assms show ?thesis by (auto simp: catchup_data_def split: if_splits)
qed

text \<open>
  C9 (as the code has it).  A click closes the notification first, in every case.  With
  the action \<open>dismiss\<close> nothing else happens.  With any other action, on a notification
  the worker has shown: if the window clients include one whose URL contains the worker's
  origin, such a window is focused and then, when \<open>focus\<close> resolves, exactly one
  \<open>NOTIFICATION_CLICKED\<close> message with the target URL, the notification id and the
  action is posted to it, while when \<open>focus\<close> rejects nothing is posted and nothing is
  opened; if they include none, a window is opened at the target URL when
  \<open>clients.openWindow\<close> exists and nothing more happens when it does not.  The target
  URL is \<open>data.targetUrl\<close> or \<open>/\<close>.
\<close>

theorem notificationclick_routing:
  "take 1 (fst (on_notificationclick org env a d0)) = [NotificationClose]
   \<and> (a = ''dismiss'' \<longrightarrow> on_notificationclick org env a d0 = ([NotificationClose], None))
   \<and> (a \<noteq> ''dismiss'' \<and> shown_data s = Inr d
        \<and> (\<exists>c \<in> set (clientList env). includesStr (client_url c) org) \<longrightarrow>
       (\<exists>c \<in> set (clientList env). includesStr (client_url c) org
          \<and> on_notificationclick org env a d =
              ([NotificationClose, ClientFocus c]
                 @ (if focus_resolves env
                    then [ClientPostMessage c
                            (NOTIFICATION_CLICKED (or_else (js_get d ''targetUrl'') (JStr ''/''))
                               (js_get d ''notificationId'') a)]
                    else []), None)))
   \<and> (a \<noteq> ''dismiss'' \<and> shown_data s = Inr d
        \<and> (\<forall>c \<in> set (clientList env). \<not> includesStr (client_url c) org) \<longrightarrow>
       on_notificationclick org env a d =
         ([NotificationClose]
            @ (if has_openWindow env
               then [OpenWindow (or_else (js_get d ''targetUrl'') (JStr ''/''))]
               else []), None))"
proof (intro conjI impI)
  show "take 1 (fst (on_notificationclick org env a d0)) = [NotificationClose]"
    by (simp add: on_notificationclick_def Let_def split: option.splits)
next
  assume "a = ''dismiss''"
  then show "on_notificationclick org env a d0 = ([NotificationClose], None)"
    by (simp add: on_notificationclick_def)
next
  assume h: "a \<noteq> ''dismiss'' \<and> shown_data s = Inr d
        \<and> (\<exists>c \<in> set (clientList env). includesStr (client_url c) org)"
  then have nn: "d \<noteq> JNull" using shown_data_not_null by blast
  from h obtain c
    where c: "find (\<lambda>c. includesStr (client_url c) org) (clientList env) = Some c"
    by (cases "find (\<lambda>c. includesStr (client_url c) org) (clientList env)")
       (auto simp: find_None_iff)
  then have "c \<in> set (clientList env)" and "includesStr (client_url c) org"
    by (auto simp: find_Some_iff)
  moreover have "on_notificationclick org env a d =
              ([NotificationClose, ClientFocus c]
                 @ (if focus_resolves env
                    then [ClientPostMessage c
                            (NOTIFICATION_CLICKED (or_else (js_get d ''targetUrl'') (JStr ''/''))
                               (js_get d ''notificationId'') a)]
                    else []), None)"
    using h nn c by (simp add: on_notificationclick_def Let_def)
  ultimately show "\<exists>c \<in> set (clientList env). includesStr (client_url c) org
          \<and> on_notificationclick org env a d =
              ([NotificationClose, ClientFocus c]
                 @ (if focus_resolves env
                    then [ClientPostMessage c
                            (NOTIFICATION_CLICKED (or_else (js_get d ''targetUrl'') (JStr ''/''))
                               (js_get d ''notificationId'') a)]
                    else []), None)"
    by blast
next
  assume h: "a \<noteq> ''dismiss'' \<and> shown_data s = Inr d
        \<and> (\<forall>c \<in> set (clientList env). \<not> includesStr (client_url c) org)"
  then have nn: "d \<noteq> JNull" using shown_data_not_null by blast
  from h have "find (\<lambda>c. includesStr (client_url c) org) (clientList env) = None"
    by (simp add: find_None_iff)
  with h nn show "on_notificationclick org env a d =
         ([NotificationClose]
            @ (if has_openWindow env
               then [OpenWindow (or_else (js_get d ''targetUrl'') (JStr ''/''))]
               else []), None)"
    by (simp add: on_notificationclick_def Let_def)
qed

lemma order_push_data: "shown_data order_push = Inr order_data"
  by (simp add: order_push_def order_data_def received_notificationData_def
      push_options_def or_else_def)

theorem notificationclick_witness:
  "shown_data order_push = Inr order_data
   \<and> on_notificationclick ''https://app.example'' one_window ''dismiss'' order_data
     = ([NotificationClose], None)
   \<and> on_notificationclick ''https://app.example'' one_window ''view'' order_data
     = ([NotificationClose, ClientFocus (WindowClient 1 ''https://app.example/rider''),
         ClientPostMessage (WindowClient 1 ''https://app.example/rider'')
           (NOTIFICATION_CLICKED (JStr ''/orders/7'') (Some (JStr ''n7'')) ''view'')], None)
   \<and> on_notificationclick ''https://app.example'' no_window ''view'' order_data
     = ([NotificationClose, OpenWindow (JStr ''/orders/7'')], None)"
proof -
  have inc: "includesStr ''https://app.example/rider'' ''https://app.example''"
    by (simp add: startsWith_def)
  have t: "or_else (js_get order_data ''targetUrl'') (JStr ''/'') = JStr ''/orders/7''"
    and n: "js_get order_data ''notificationId'' = Some (JStr ''n7'')"
    by (simp_all add: order_data_def or_else_def)
  note sd = order_push_data
  from notificationclick_routing
         [of "''https://app.example''" one_window "''dismiss''" order_data order_push order_data]
  have 1: "on_notificationclick ''https://app.example'' one_window ''dismiss'' order_data
     = ([NotificationClose], None)" by simp
  from notificationclick_routing
         [of "''https://app.example''" one_window "''view''" order_data order_push order_data]
    inc t n sd
  have 2: "on_notificationclick ''https://app.example'' one_window ''view'' order_data
     = ([NotificationClose, ClientFocus (WindowClient 1 ''https://app.example/rider''),
         ClientPostMessage (WindowClient 1 ''https://app.example/rider'')
           (NOTIFICATION_CLICKED (JStr ''/orders/7'') (Some (JStr ''n7'')) ''view'')], None)"
    by (simp add: one_window_def startsWith_def)
  from notificationclick_routing
         [of "''https://app.example''" no_window "''view''" order_data order_push order_data]
    t sd
  have 3: "on_notificationclick ''https://app.example'' no_window ''view'' order_data
     = ([NotificationClose, OpenWindow (JStr ''/orders/7'')], None)"
    by (simp add: no_window_def)
  from sd 1 2 3 show ?thesis by simp
qed

text \<open>
  Two clicks on a shown notification where the claim's outcome does not happen: no window
  and no \<open>clients.openWindow\<close>, so nothing is opened; a window whose \<open>focus\<close> rejects,
  so no message is posted.
\<close>

theorem notificationclick_counterexample:
  "on_notificationclick ''https://app.example''
      \<lparr>clientList = [], focus_resolves = True, has_openWindow = False\<rparr> ''view'' order_data
     = ([NotificationClose], None)
   \<and> on_notificationclick ''https://app.example''
      \<lparr>clientList = [WindowClient 1 ''https://app.example/rider''],
        focus_resolves = False, has_openWindow = True\<rparr> ''view'' order_data
     = ([NotificationClose, ClientFocus (WindowClient 1 ''https://app.example/rider'')], None)"
  by (simp add: on_notificationclick_def order_data_def startsWith_def Let_def)

text \<open>
  C10 (as the code has it).  Without a payload the title, the body and every option are
  the defaults.  A payload that is not JSON becomes the body, the rest being the defaults.
  A payload that parses to a value other than \<open>null\<close> replaces the initial object as a
  whole: the body is the payload's \<open>body\<close> as it is, absent when the payload has none,
  while icon, badge icon, vibration pattern, action buttons and data fall back to their
  defaults when the payload lacks them.
\<close>

theorem push_options_defaults:
  "push_options (received_notificationData None) =
     Inr (Some (JStr ''New Notification''),
          \<lparr> body = Some (JStr ''You have a new notification''),
            icon = JStr ''/icon-192x192.png'', badge = JStr ''/badge-72x72.png'',
            tag = JStr ''default'', requireInteraction = JBool False,
            vibrate = default_vibrate, data = JObj [], actions = default_actions,
            silent = False \<rparr>)
   \<and> push_options (received_notificationData (Some (TextPayload txt))) =
     Inr (Some (JStr ''New Notification''),
          \<lparr> body = Some (JStr txt),
            icon = JStr ''/icon-192x192.png'', badge = JStr ''/badge-72x72.png'',
            tag = JStr ''default'', requireInteraction = JBool False,
            vibrate = default_vibrate, data = JObj [], actions = default_actions,
            silent = False \<rparr>)
   \<and> (j \<noteq> JNull \<longrightarrow>
        (\<exists>title options.
           push_options (received_notificationData (Some (JsonPayload j)))
             = Inr (title, options)
           \<and> body options = js_get j ''body''
           \<and> (js_get j ''icon'' = None \<longrightarrow> icon options = JStr ''/icon-192x192.png'')
           \<and> (js_get j ''badge'' = None \<longrightarrow> badge options = JStr ''/badge-72x72.png'')
           \<and> (js_get j ''vibrate'' = None \<longrightarrow> vibrate options = default_vibrate)
           \<and> (js_get j ''actions'' = None \<longrightarrow> actions options = default_actions)
           \<and> (js_get j ''data'' = None \<longrightarrow> data options = JObj [])))"
proof (intro conjI impI)
  show "push_options (received_notificationData None) =
     Inr (Some (JStr ''New Notification''),
          \<lparr> body = Some (JStr ''You have a new notification''),
            icon = JStr ''/icon-192x192.png'', badge = JStr ''/badge-72x72.png'',
            tag = JStr ''default'', requireInteraction = JBool False,
            vibrate = default_vibrate, data = JObj [], actions = default_actions,
            silent = False \<rparr>)"
    by (simp add: received_notificationData_def default_notificationData_def
        push_options_def or_else_def)
next
  show "push_options (received_notificationData (Some (TextPayload txt))) =
     Inr (Some (JStr ''New Notification''),
          \<lparr> body = Some (JStr txt),
            icon = JStr ''/icon-192x192.png'', badge = JStr ''/badge-72x72.png'',
            tag = JStr ''default'', requireInteraction = JBool False,
            vibrate = default_vibrate, data = JObj [], actions = default_actions,
            silent = False \<rparr>)"
    by (simp add: received_notificationData_def default_notificationData_def
        push_options_def or_else_def)
next
  assume "j \<noteq> JNull"
  then show "\<exists>title options.
           push_options (received_notificationData (Some (JsonPayload j)))
             = Inr (title, options)
           \<and> body options = js_get j ''body''
           \<and> (js_get j ''icon'' = None \<longrightarrow> icon options = JStr ''/icon-192x192.png'')
           \<and> (js_get j ''badge'' = None \<longrightarrow> badge options = JStr ''/badge-72x72.png'')
           \<and> (js_get j ''vibrate'' = None \<longrightarrow> vibrate options = default_vibrate)
           \<and> (js_get j ''actions'' = None \<longrightarrow> actions options = default_actions)
           \<and> (js_get j ''data'' = None \<longrightarrow> data options = JObj [])"
    by (simp add: received_notificationData_def push_options_def or_else_absent)
qed

theorem push_options_witness:
  "push_options (received_notificationData (Some (TextPayload ''Order 7 assigned''))) =
     Inr (Some (JStr ''New Notification''),
          \<lparr> body = Some (JStr ''Order 7 assigned''),
            icon = JStr ''/icon-192x192.png'', badge = JStr ''/badge-72x72.png'',
            tag = JStr ''default'', requireInteraction = JBool False,
            vibrate = default_vibrate, data = JObj [], actions = default_actions,
            silent = False \<rparr>)
   \<and> push_options (received_notificationData (Some (JsonPayload
          (JObj [(''title'', JStr ''Order 7''), (''body'', JStr ''Assigned to you''),
                 (''icon'', JStr ''/rider.png''), (''vibrate'', JArr [])])))) =
     Inr (Some (JStr ''Order 7''),
          \<lparr> body = Some (JStr ''Assigned to you''),
            icon = JStr ''/rider.png'', badge = JStr ''/badge-72x72.png'',
            tag = JStr ''default'', requireInteraction = JBool False,
            vibrate = JArr [], data = JObj [], actions = default_actions,
            silent = False \<rparr>)"
proof -
  let ?j = "JObj [(''title'', JStr ''Order 7''), (''body'', JStr ''Assigned to you''),
                 (''icon'', JStr ''/rider.png''), (''vibrate'', JArr [])]"
  from push_options_defaults [of "''Order 7 assigned''" ?j]
  obtain title options where
    r: "push_options (received_notificationData (Some (JsonPayload ?j))) = Inr (title, options)"
    and b: "body options = Some (JStr ''Assigned to you'')"
    and d: "badge options = JStr ''/badge-72x72.png''" "actions options = default_actions"
           "data options = JObj []"
    by auto
  have "title = Some (JStr ''Order 7'')" "icon options = JStr ''/rider.png''"
       "vibrate options = JArr []" "tag options = JStr ''default''"
       "requireInteraction options = JBool False" "silent options = False"
    using r by (auto simp: received_notificationData_def push_options_def or_else_def)
  with r b d have "push_options (received_notificationData (Some (JsonPayload ?j))) =
     Inr (Some (JStr ''Order 7''),
          \<lparr> body = Some (JStr ''Assigned to you''),
            icon = JStr ''/rider.png'', badge = JStr ''/badge-72x72.png'',
            tag = JStr ''default'', requireInteraction = JBool False,
            vibrate = JArr [], data = JObj [], actions = default_actions,
            silent = False \<rparr>)"
    by (cases options) simp
  with push_options_defaults [of "''Order 7 assigned''" ?j] show ?thesis by blast
qed

text \<open>
  A JSON payload without \<open>body\<close> is shown with no body rather than the default one, and
  the payload \<open>null\<close> makes the handler throw before any option is derived.
\<close>

theorem push_options_body_counterexample:
  "push_options (received_notificationData (Some (JsonPayload (JObj [(''title'', JStr ''Order 7'')]))))
     = Inr (Some (JStr ''Order 7''),
          \<lparr> body = None,
            icon = JStr ''/icon-192x192.png'', badge = JStr ''/badge-72x72.png'',
            tag = JStr ''default'', requireInteraction = JBool False,
            vibrate = default_vibrate, data = JObj [], actions = default_actions,
            silent = False \<rparr>)
   \<and> push_options (received_notificationData (Some (JsonPayload JNull))) = Inl TypeError"
  by (simp add: received_notificationData_def push_options_def or_else_def)

end
